theory Spec2Isabelle
  imports Main "HOL-Library.Word"
begin

section \<open>The example module of libxposed-example (demo.cpp, native\_api.hpp)\<close>

text \<open>
  The module is native code that runs inside a host process. It owns four global
  variables (\<open>hook_func\<close>, \<open>backup\<close>, \<open>backup_fopen\<close>, \<open>backup_FindClass\<close>), three
  replacement functions and three entry points. Everything else (the hook function
  behind \<open>hook_func\<close>, \<open>dlsym\<close>, the Java VM, the code behind a backup pointer) belongs
  to the process and is a parameter of the model.

  \<^item> A \<open>void *\<close> or function pointer is an \<open>addr option\<close>; \<open>None\<close> is \<open>nullptr\<close>.
  \<^item> A \<open>const char *\<close> argument is a \<open>string\<close>: the bytes before the terminating NUL.
  \<^item> \<open>int\<close> and \<open>jint\<close> are 32-bit words; \<open>+\<close> wraps.
  \<^item> A call through a null function pointer and a read through a null pointer are
    faults, returned as \<open>Inl\<close>.
  \<^item> The state of the rest of the process is a value of an arbitrary type \<open>'h\<close>.
  \<^item> Every call that leaves the module towards the host (the log, \<open>dlsym\<close>, \<open>GetEnv\<close>,
    the hook function) is appended to the \<open>trace\<close> of the world.
\<close>

subsection \<open>Pointers, faults and the capability table\<close>

type_synonym addr = nat
type_synonym ptr = "addr option"
type_synonym c_int = "32 word"

datatype fault = NullFunctionCall | NullDereference

text \<open>The three globals whose address the module hands to the hook function.\<close>

datatype slot = Slot_backup | Slot_backup_fopen | Slot_backup_FindClass

datatype event =
    LogD string
  | DlsymCall ptr string
  | GetEnvCall c_int
  | HookCall ptr ptr slot

text \<open>
  \<open>typedef int (*HookFunType)(void *func, void *replace, void **backup)\<close>: the function
  gets the target, the replacement and the location \<open>backup\<close> points to (here: its
  content before the call) and yields its return code, the content of that location
  after the call, and the new state of the process.
  \<open>typedef int (*UnhookFunType)(void *func)\<close>.
\<close>

type_synonym 'h HookFunType = "ptr \<Rightarrow> ptr \<Rightarrow> ptr \<Rightarrow> 'h \<Rightarrow> c_int \<times> ptr \<times> 'h"
type_synonym 'h UnhookFunType = "ptr \<Rightarrow> 'h \<Rightarrow> c_int \<times> 'h"

record 'h NativeAPIEntries =
  version :: "32 word"
  hookFunc :: "'h HookFunType option"
  unhookFunc :: "'h UnhookFunType option"

subsection \<open>The Java VM as JNI\_OnLoad sees it\<close>

record JNIEnv =
  FindClass :: ptr

text \<open>
  \<open>jvm->GetEnv((void **)&env, version)\<close> yields a status and what it stored in \<open>env\<close>
  (\<open>None\<close>: it left or made it null).
\<close>

record JavaVM =
  GetEnv :: "c_int \<Rightarrow> c_int \<times> JNIEnv option"

definition JNI_VERSION_1_6 :: c_int where
  "JNI_VERSION_1_6 = 0x00010006"

subsection \<open>The process around the module\<close>

text \<open>
  The addresses the linker gave to the module's functions and to \<open>fopen\<close>, the symbol
  lookup \<open>dlsym\<close>, and what happens when code at an address is called with each of the
  three signatures the module calls through a backup pointer.
\<close>

record 'h platform =
  fake_addr :: addr
  fake_fopen_addr :: addr
  fake_FindClass_addr :: addr
  on_library_loaded_addr :: addr
  fopen_addr :: addr
  dlsym :: "ptr \<Rightarrow> string \<Rightarrow> ptr"
  call_int :: "addr \<Rightarrow> 'h \<Rightarrow> fault + (c_int \<times> 'h)"
  call_fopen :: "addr \<Rightarrow> string \<Rightarrow> string \<Rightarrow> 'h \<Rightarrow> fault + (ptr \<times> 'h)"
  call_FindClass :: "addr \<Rightarrow> JNIEnv option \<Rightarrow> string \<Rightarrow> 'h \<Rightarrow> fault + (ptr \<times> 'h)"

subsection \<open>The module's globals\<close>

record 'h world =
  hook_func :: "'h HookFunType option"
  backup :: ptr
  backup_fopen :: ptr
  backup_FindClass :: ptr
  host :: 'h
  trace :: "event list"

text \<open>
  \<open>static HookFunType hook_func = nullptr;\<close> and the three backup pointers have static
  storage, so they are null when the module is loaded.
\<close>

definition module_loaded :: "'h \<Rightarrow> 'h world" where
  "module_loaded h =
     \<lparr>hook_func = None, backup = None, backup_fopen = None, backup_FindClass = None,
      host = h, trace = []\<rparr>"

definition get_slot :: "slot \<Rightarrow> 'h world \<Rightarrow> ptr" where
  "get_slot s w =
     (case s of Slot_backup \<Rightarrow> backup w
      | Slot_backup_fopen \<Rightarrow> backup_fopen w
      | Slot_backup_FindClass \<Rightarrow> backup_FindClass w)"

definition set_slot :: "slot \<Rightarrow> ptr \<Rightarrow> 'h world \<Rightarrow> 'h world" where
  "set_slot s p w =
     (case s of Slot_backup \<Rightarrow> w\<lparr>backup := p\<rparr>
      | Slot_backup_fopen \<Rightarrow> w\<lparr>backup_fopen := p\<rparr>
      | Slot_backup_FindClass \<Rightarrow> w\<lparr>backup_FindClass := p\<rparr>)"

definition emit :: "event \<Rightarrow> 'h world \<Rightarrow> 'h world" where
  "emit e w = w\<lparr>trace := trace w @ [e]\<rparr>"

text \<open>A call through a backup pointer: a fault when the pointer is null.\<close>

definition invoke ::
  "(addr \<Rightarrow> 'h \<Rightarrow> fault + ('r \<times> 'h)) \<Rightarrow> ptr \<Rightarrow> 'h world \<Rightarrow> fault + ('r \<times> 'h world)" where
  "invoke f p w =
     (case p of
        None \<Rightarrow> Inl NullFunctionCall
      | Some a \<Rightarrow>
          (case f a (host w) of
             Inl e \<Rightarrow> Inl e
           | Inr (r, h') \<Rightarrow> Inr (r, w\<lparr>host := h'\<rparr>)))"

text \<open>
  \<open>hook_func(target, replace, &slot)\<close>: a call through the global \<open>hook_func\<close>. The
  module ignores the return code at each of its three call sites.
\<close>

definition call_hook_func :: "ptr \<Rightarrow> ptr \<Rightarrow> slot \<Rightarrow> 'h world \<Rightarrow> fault + 'h world" where
  "call_hook_func target replace s w =
     (case hook_func w of
        None \<Rightarrow> Inl NullFunctionCall
      | Some hf \<Rightarrow>
          (case hf target replace (get_slot s w) (host w) of
             (rc, b', h') \<Rightarrow>
               Inr (set_slot s b' (emit (HookCall target replace s) (w\<lparr>host := h'\<rparr>)))))"

subsection \<open>The C library functions the module uses\<close>

text \<open>
  \<open>strstr(haystack, needle)\<close>: the first position where \<open>needle\<close> starts, as the rest
  of \<open>haystack\<close> from there, or \<open>None\<close> for the null result.
\<close>

fun strstr :: "string \<Rightarrow> string \<Rightarrow> string option" where
  "strstr [] needle = (if needle = [] then Some [] else None)"
| "strstr (c # cs) needle =
     (if take (length needle) (c # cs) = needle then Some (c # cs) else strstr cs needle)"

text \<open>
  \<open>strcmp(a, b)\<close>: negative, zero or positive as \<open>a\<close> is less than, equal to or greater
  than \<open>b\<close>, bytes compared as unsigned char.
\<close>

fun strcmp :: "string \<Rightarrow> string \<Rightarrow> int" where
  "strcmp [] [] = 0"
| "strcmp [] (b # bs) = - 1"
| "strcmp (a # as) [] = 1"
| "strcmp (a # as) (b # bs) =
     (if a = b then strcmp as bs
      else if (of_char a :: nat) < of_char b then - 1 else 1)"

text \<open>
  \<open>std::string::ends_with(x)\<close>: \<open>size() >= x.size()\<close> and the last \<open>x.size()\<close>
  characters compare equal to \<open>x\<close>.
\<close>

definition ends_with :: "string \<Rightarrow> string \<Rightarrow> bool" where
  "ends_with s x = (length x \<le> length s \<and> drop (length s - length x) s = x)"

subsection \<open>The three replacement functions\<close>

text \<open>\<open>int fake() { return backup() + 1; }\<close>\<close>

definition fake :: "'h platform \<Rightarrow> 'h world \<Rightarrow> fault + (c_int \<times> 'h world)" where
  "fake P w =
     (case invoke (call_int P) (backup w) w of
        Inl e \<Rightarrow> Inl e
      | Inr (r, w') \<Rightarrow> Inr (r + 1, w'))"

definition fake_fopen ::
  "'h platform \<Rightarrow> string \<Rightarrow> string \<Rightarrow> 'h world \<Rightarrow> fault + (ptr \<times> 'h world)" where
  "fake_fopen P filename mode w =
     (if strstr filename ''banned'' \<noteq> None then Inr (None, w)
      else invoke (\<lambda>a. call_fopen P a filename mode) (backup_fopen w) w)"

definition fake_FindClass ::
  "'h platform \<Rightarrow> JNIEnv option \<Rightarrow> string \<Rightarrow> 'h world \<Rightarrow> fault + (ptr \<times> 'h world)" where
  "fake_FindClass P env name w =
     (if strcmp name ''dalvik/system/BaseDexClassLoader'' = 0 then Inr (None, w)
      else invoke (\<lambda>a. call_FindClass P a env name) (backup_FindClass w) w)"

subsection \<open>The three entry points\<close>

definition on_library_loaded ::
  "'h platform \<Rightarrow> string \<Rightarrow> ptr \<Rightarrow> 'h world \<Rightarrow> fault + 'h world" where
  "on_library_loaded P name handle w =
     (if ends_with name ''libtarget.so'' then
        (let target = dlsym P handle ''target_fun'' in
         call_hook_func target (Some (fake_addr P)) Slot_backup
           (emit (DlsymCall handle ''target_fun'') w))
      else Inr w)"

text \<open>
  In \<open>JNI_OnLoad\<close> the argument \<open>env->functions->FindClass\<close> is evaluated before the
  call through \<open>hook_func\<close> is made, so a null \<open>env\<close> faults first.
\<close>

definition JNI_OnLoad :: "'h platform \<Rightarrow> JavaVM \<Rightarrow> 'h world \<Rightarrow> fault + (c_int \<times> 'h world)" where
  "JNI_OnLoad P jvm w =
     (let w1 = emit (LogD ''JNI_OnLoad called'') w;
          w2 = emit (GetEnvCall JNI_VERSION_1_6) w1
      in case snd (GetEnv jvm JNI_VERSION_1_6) of
           None \<Rightarrow> Inl NullDereference
         | Some env \<Rightarrow>
             (case call_hook_func (FindClass env) (Some (fake_FindClass_addr P))
                     Slot_backup_FindClass w2 of
                Inl e \<Rightarrow> Inl e
              | Inr w3 \<Rightarrow> Inr (JNI_VERSION_1_6, w3)))"

definition native_init ::
  "'h platform \<Rightarrow> 'h NativeAPIEntries \<Rightarrow> 'h world \<Rightarrow> fault + (ptr \<times> 'h world)" where
  "native_init P entries w =
     (let w1 = emit (LogD ''NativeOnModuleLoaded called'') w;
          w2 = w1\<lparr>hook_func := hookFunc entries\<rparr>
      in case call_hook_func (Some (fopen_addr P)) (Some (fake_fopen_addr P))
                Slot_backup_fopen w2 of
           Inl e \<Rightarrow> Inl e
         | Inr w3 \<Rightarrow> Inr (Some (on_library_loaded_addr P), w3))"

subsection \<open>Executions of the module\<close>

text \<open>
  The host drives the module by calling its functions one after the other. A fault
  ends the execution.
\<close>

datatype 'h call =
    Call_native_init "'h NativeAPIEntries"
  | Call_JNI_OnLoad JavaVM
  | Call_on_library_loaded string ptr
  | Call_fake
  | Call_fake_fopen string string
  | Call_fake_FindClass "JNIEnv option" string

definition step :: "'h platform \<Rightarrow> 'h call \<Rightarrow> 'h world \<Rightarrow> fault + 'h world" where
  "step P c w =
     (case c of
        Call_native_init entries \<Rightarrow> map_sum id snd (native_init P entries w)
      | Call_JNI_OnLoad jvm \<Rightarrow> map_sum id snd (JNI_OnLoad P jvm w)
      | Call_on_library_loaded name handle \<Rightarrow> on_library_loaded P name handle w
      | Call_fake \<Rightarrow> map_sum id snd (fake P w)
      | Call_fake_fopen filename mode \<Rightarrow> map_sum id snd (fake_fopen P filename mode w)
      | Call_fake_FindClass env name \<Rightarrow> map_sum id snd (fake_FindClass P env name w))"

fun run :: "'h platform \<Rightarrow> 'h call list \<Rightarrow> 'h world \<Rightarrow> fault + 'h world" where
  "run P [] w = Inr w"
| "run P (c # cs) w = (case step P c w of Inl e \<Rightarrow> Inl e | Inr w' \<Rightarrow> run P cs w')"

text \<open>The hook installations recorded in a trace: target, replacement, backup location.\<close>

fun hook_calls :: "event list \<Rightarrow> (ptr \<times> ptr \<times> slot) list" where
  "hook_calls [] = []"
| "hook_calls (HookCall t r s # es) = (t, r, s) # hook_calls es"
| "hook_calls (e # es) = hook_calls es"

text \<open>
  The hook installations each function of the module is expected to perform: one in
  \<open>native_init\<close> (on \<open>fopen\<close>), one in \<open>JNI_OnLoad\<close> (on the \<open>FindClass\<close> entry of the JNI
  table), one in \<open>on_library_loaded\<close> (on \<open>target_fun\<close>, for a library whose name ends
  with \<open>libtarget.so\<close>), and none anywhere else.
\<close>

definition installations :: "'h platform \<Rightarrow> 'h call \<Rightarrow> (ptr \<times> ptr \<times> slot) list" where
  "installations P c =
     (case c of
        Call_native_init entries \<Rightarrow>
          [(Some (fopen_addr P), Some (fake_fopen_addr P), Slot_backup_fopen)]
      | Call_JNI_OnLoad jvm \<Rightarrow>
          (case snd (GetEnv jvm JNI_VERSION_1_6) of
             None \<Rightarrow> []
           | Some env \<Rightarrow> [(FindClass env, Some (fake_FindClass_addr P), Slot_backup_FindClass)])
      | Call_on_library_loaded name handle \<Rightarrow>
          (if ends_with name ''libtarget.so''
           then [(dlsym P handle ''target_fun'', Some (fake_addr P), Slot_backup)]
           else [])
      | _ \<Rightarrow> [])"

text \<open>The same call with another unhook capability in the table it passes.\<close>

definition with_unhook :: "'h UnhookFunType option \<Rightarrow> 'h call \<Rightarrow> 'h call" where
  "with_unhook u c =
     (case c of
        Call_native_init entries \<Rightarrow> Call_native_init (entries\<lparr>unhookFunc := u\<rparr>)
      | _ \<Rightarrow> c)"

subsection \<open>A concrete process\<close>

text \<open>
  A small process for evaluating the module: its state counts the calls that reached
  host code, every \<open>int()\<close> function returns 41, \<open>fopen\<close> yields a stream at \<open>0x5000\<close>
  and \<open>FindClass\<close> a class at \<open>0x6000\<close>; the hook function stores \<open>0x7000\<close> as backup.
\<close>

definition demo_platform :: "nat platform" where
  "demo_platform =
     \<lparr>fake_addr = 0x1000, fake_fopen_addr = 0x1100, fake_FindClass_addr = 0x1200,
      on_library_loaded_addr = 0x1300, fopen_addr = 0x2000,
      dlsym = (\<lambda>h s. if s = ''target_fun'' then Some 0x3000 else None),
      call_int = (\<lambda>a h. Inr (41, Suc h)),
      call_fopen = (\<lambda>a f m h. Inr (Some 0x5000, Suc h)),
      call_FindClass = (\<lambda>a e n h. Inr (Some 0x6000, Suc h))\<rparr>"

definition demo_hook :: "nat HookFunType" where
  "demo_hook t r b h = (0, Some 0x7000, Suc h)"

definition demo_unhook :: "nat UnhookFunType" where
  "demo_unhook t h = (0, Suc h)"

definition demo_entries :: "nat NativeAPIEntries" where
  "demo_entries = \<lparr>version = 2, hookFunc = Some demo_hook, unhookFunc = Some demo_unhook\<rparr>"

definition demo_jvm :: JavaVM where
  "demo_jvm = \<lparr>GetEnv = (\<lambda>v. (0, Some \<lparr>FindClass = Some 0x4000\<rparr>))\<rparr>"

text \<open>The module after a host has installed all three hooks.\<close>

definition demo_hooked :: "nat world" where
  "demo_hooked =
     \<lparr>hook_func = Some demo_hook, backup = Some 0x7000, backup_fopen = Some 0x7000,
      backup_FindClass = Some 0x7000, host = 3, trace = []\<rparr>"

text \<open>An execution that calls every function of the module.\<close>

definition demo_calls :: "nat call list" where
  "demo_calls =
     [Call_native_init demo_entries, Call_JNI_OnLoad demo_jvm,
      Call_on_library_loaded ''libc.so'' (Some 6),
      Call_on_library_loaded ''libtarget.so'' (Some 7),
      Call_fake, Call_fake_fopen ''ok.txt'' ''r'', Call_fake_fopen ''banned.txt'' ''r'',
      Call_fake_FindClass None ''java/lang/String'']"

text \<open>The module right after \<open>native_init\<close> has run in the freshly loaded module.\<close>

definition demo_initialised :: "nat world" where
  "demo_initialised =
     \<lparr>hook_func = Some demo_hook, backup = None, backup_fopen = Some 0x7000,
      backup_FindClass = None, host = 1,
      trace = [LogD ''NativeOnModuleLoaded called'',
               HookCall (Some 0x2000) (Some 0x1100) Slot_backup_fopen]\<rparr>"

section \<open>The hook engine behind the capability table\<close>

text \<open>
  The functions behind \<open>hookFunc\<close> and \<open>unhookFunc\<close> are not code of the repository: the
  module only receives pointers to them. The specification describes the engine they
  belong to (sections 3, 4, 6 and 7), and every definition of this section is taken
  from that description.
\<close>

text \<open>
  Modelled from the spec: a byte of process memory, as the engine (whose code is not in
  the repository) reads and writes it.
\<close>

type_synonym byte = "8 word"

text \<open>
  Modelled from the spec: the error kinds of section 7, which the missing engine returns
  to its caller.
\<close>

datatype PatchError =
  AlreadyHooked | NotHooked | UnsupportedInstruction | ProtectionDenied | InvalidAddress

text \<open>
  Modelled from the spec: the \<open>HookRecord\<close> of section 3, field by field; the engine
  that keeps these records is not in the repository.
\<close>

record HookRecord =
  target_address :: addr
  original_bytes :: "byte list"
  trampoline_address :: addr
  replacement_address :: addr
  active :: bool

text \<open>
  Modelled from the spec: the state the missing engine works on, which is the process
  memory it patches, the registry (``process-wide table'', one record per installed hook) and
  the executable regions it allocated for trampolines. A trampoline is new memory, so
  the regions are kept apart from the memory that was there before; addresses are
  handed out upwards from \<open>next_trampoline\<close> and never again (``never reused while any
  caller may still hold a pointer obtained from it'').
\<close>

record engine =
  memory :: "addr \<Rightarrow> byte"
  registry :: "HookRecord list"
  trampolines :: "addr \<rightharpoonup> byte list"
  next_trampoline :: addr

text \<open>
  Modelled from the spec: what section 9 calls the instruction-relocation strategy of the
  missing engine, one per instruction set, together with the platform facts section 4.1 relies on: which
  addresses are valid function entries, how long the instruction at an address is
  (\<open>None\<close> when it cannot be decoded or moved), the encoding of an unconditional
  branch placed at one address and going to another, the no-op byte, the minimum
  patchable granularity, the relocation of a byte sequence moved from one address to
  another (\<open>None\<close> when it is not supported), and whether a range can be made writable.
\<close>

record arch =
  valid_address :: "addr \<Rightarrow> bool"
  insn_length :: "(addr \<Rightarrow> byte) \<Rightarrow> addr \<Rightarrow> nat option"
  branch :: "addr \<Rightarrow> addr \<Rightarrow> byte list"
  nop :: byte
  granularity :: nat
  relocate :: "byte list \<Rightarrow> addr \<Rightarrow> addr \<Rightarrow> byte list option"
  make_writable :: "addr \<Rightarrow> nat \<Rightarrow> bool"

text \<open>
  Modelled from the spec: the missing engine's state at the start, ``the registry itself
  is process-wide state initialized empty at process/module load''.
\<close>

definition engine_init :: "(addr \<Rightarrow> byte) \<Rightarrow> addr \<Rightarrow> engine" where
  "engine_init m base =
     \<lparr>memory = m, registry = [], trampolines = Map.empty, next_trampoline = base\<rparr>"

text \<open>
  Modelled from the spec: the missing engine's read of \<open>n\<close> bytes of process memory from
  an address on (the ``exact byte sequence overwritten at the target'' is read so).
\<close>

definition read_bytes :: "(addr \<Rightarrow> byte) \<Rightarrow> addr \<Rightarrow> nat \<Rightarrow> byte list" where
  "read_bytes m a n = map m [a ..< a + n]"

text \<open>
  Modelled from the spec: the missing engine's write of a byte sequence into process
  memory from an address on; all other bytes stay.
\<close>

definition write_bytes :: "(addr \<Rightarrow> byte) \<Rightarrow> addr \<Rightarrow> byte list \<Rightarrow> addr \<Rightarrow> byte" where
  "write_bytes m a bs = (\<lambda>x. if a \<le> x \<and> x < a + length bs then bs ! (x - a) else m x)"

text \<open>
  Modelled from the spec: \<open>lookup\<close> of the missing engine's registry (section 4.2), which
  finds the active record of a target.
\<close>

definition lookup :: "HookRecord list \<Rightarrow> addr \<Rightarrow> HookRecord option" where
  "lookup reg t = find (\<lambda>r. target_address r = t \<and> active r) reg"

text \<open>
  Modelled from the spec: \<open>erase\<close> of the missing engine's registry (section 4.2), which
  purges the active record of a target (section 4.1: \<open>remove\<close> ``removes the record'').
\<close>

definition erase :: "HookRecord list \<Rightarrow> addr \<Rightarrow> HookRecord list" where
  "erase reg t = filter (\<lambda>r. \<not> (target_address r = t \<and> active r)) reg"

text \<open>
  Modelled from the spec: the missing engine's rounding of a byte count up to ``the
  platform's minimum patchable granularity'' (section 4.1).
\<close>

definition round_up :: "nat \<Rightarrow> nat \<Rightarrow> nat" where
  "round_up n g = (if g = 0 then n else ((n + g - 1) div g) * g)"

text \<open>
  Modelled from the spec: the missing engine's search for the split point of section
  4.1, ``enough whole instructions to hold a branch instruction's worth of bytes''.
  Starting with \<open>n\<close> bytes covered, whole instructions are added until \<open>need\<close> bytes
  are covered; an instruction that cannot be decoded ends the search without a result.
\<close>

function split_point :: "arch \<Rightarrow> (addr \<Rightarrow> byte) \<Rightarrow> addr \<Rightarrow> nat \<Rightarrow> nat \<Rightarrow> nat option" where
  "split_point A m t need n =
     (if need \<le> n then Some n
      else case insn_length A m (t + n) of
             None \<Rightarrow> None
           | Some l \<Rightarrow> if l = 0 then None else split_point A m t need (n + l))"
  by pat_completeness auto
termination
  by (relation "measure (\<lambda>(A, m, t, need, n). need - n)") auto

text \<open>
  Modelled from the spec: what the missing engine writes over the first \<open>n\<close> bytes of
  the target, ``an
  unconditional branch to \<open>replacement\<close>, padding any leftover bytes with no-op
  instructions''.
\<close>

definition redirect :: "arch \<Rightarrow> addr \<Rightarrow> addr \<Rightarrow> nat \<Rightarrow> byte list" where
  "redirect A target replacement n =
     branch A target replacement @ replicate (n - length (branch A target replacement)) (nop A)"

text \<open>
  Modelled from the spec: the effect of a successful \<open>install\<close> of the missing engine
  (section 4.1). The
  trampoline gets the relocated original instructions followed by a jump back to the
  first instruction after the patched region; the target gets the branch; the record
  keeps the bytes that were overwritten.
\<close>

definition commit :: "arch \<Rightarrow> addr \<Rightarrow> addr \<Rightarrow> nat \<Rightarrow> byte list \<Rightarrow> engine \<Rightarrow> engine" where
  "commit A target replacement n moved s =
     (let tramp = next_trampoline s;
          stub = moved @ branch A (tramp + length moved) (target + n);
          r = \<lparr>target_address = target, original_bytes = read_bytes (memory s) target n,
               trampoline_address = tramp, replacement_address = replacement, active = True\<rparr>
      in s\<lparr>memory := write_bytes (memory s) target (redirect A target replacement n),
           registry := r # registry s,
           trampolines := (trampolines s)(tramp \<mapsto> stub),
           next_trampoline := tramp + length stub\<rparr>)"

text \<open>
  Modelled from the spec: \<open>install(target, replacement)\<close> of sections 4.1, 4.3 and 7,
  whose code is not in the repository. It yields the trampoline address or an error, and the state of the engine afterwards;
  a failed install leaves that state as it was. The registry is asked first, so that
  an already hooked target is always answered with \<open>AlreadyHooked\<close> (section 8).
\<close>

definition install :: "arch \<Rightarrow> addr \<Rightarrow> addr \<Rightarrow> engine \<Rightarrow> (PatchError + addr) \<times> engine" where
  "install A target replacement s =
     (if lookup (registry s) target \<noteq> None then (Inl AlreadyHooked, s)
      else if \<not> valid_address A target \<or> \<not> valid_address A replacement
        then (Inl InvalidAddress, s)
      else
        (case split_point A (memory s) target
                (round_up (length (branch A target replacement)) (granularity A)) 0 of
           None \<Rightarrow> (Inl UnsupportedInstruction, s)
         | Some n \<Rightarrow>
             (case relocate A (read_bytes (memory s) target n) target (next_trampoline s) of
                None \<Rightarrow> (Inl UnsupportedInstruction, s)
              | Some moved \<Rightarrow>
                  if \<not> make_writable A target n then (Inl ProtectionDenied, s)
                  else (Inr (next_trampoline s), commit A target replacement n moved s))))"

text \<open>
  Modelled from the spec: \<open>remove(target)\<close> of section 4.1, whose code is not in the
  repository, and which ``restores the original
  bytes at \<open>target\<close> from the matching \<open>HookRecord\<close>, frees the trampoline, and removes
  the record'', and fails with \<open>NotHooked\<close> when the target has no active record.
\<close>

definition remove :: "addr \<Rightarrow> engine \<Rightarrow> (PatchError + unit) \<times> engine" where
  "remove target s =
     (case lookup (registry s) target of
        None \<Rightarrow> (Inl NotHooked, s)
      | Some r \<Rightarrow>
          (Inr (),
           s\<lparr>memory := write_bytes (memory s) target (original_bytes r),
             registry := erase (registry s) target,
             trampolines := (trampolines s)(trampoline_address r := None)\<rparr>))"

text \<open>
  Modelled from the spec: the two places a call can end up in a process patched by the
  missing engine, the replacement of a hook or the original code of a function.
\<close>

datatype control = Replacement addr | Original addr

text \<open>
  Modelled from the spec: where a call to an address ends up once the missing engine has
  patched the process (sections 5 and 8). A call to a hooked target ``must observe the
  replacement''; a call to the trampoline of a hook ``reproduces the original
  function's observable behavior''; any other address runs its own code.
\<close>

definition resolve :: "engine \<Rightarrow> addr \<Rightarrow> control" where
  "resolve s a =
     (case lookup (registry s) a of
        Some r \<Rightarrow> Replacement (replacement_address r)
      | None \<Rightarrow>
          (case find (\<lambda>r. trampoline_address r = a \<and> active r) (registry s) of
             Some r \<Rightarrow> Original (target_address r)
           | None \<Rightarrow> Original a))"

text \<open>
  Modelled from the spec: the invariant of section 3 on the missing engine's registry,
  ``at most one \<open>HookRecord\<close> exists per \<open>target_address\<close> at any time'', for the active
  records.
\<close>

definition one_hook_per_target :: "engine \<Rightarrow> bool" where
  "one_hook_per_target s = distinct (map target_address (filter active (registry s)))"

subsection \<open>A concrete instruction set and process memory\<close>

text \<open>
  A small instruction set for evaluating the engine: every instruction is four bytes
  long, a branch is an opcode byte followed by the low four bytes of its destination,
  so that a patch covers two instructions and ends in three no-ops.
\<close>

definition toy_arch :: arch where
  "toy_arch =
     \<lparr>valid_address = (\<lambda>a. a \<noteq> 0),
      insn_length = (\<lambda>m a. Some 4),
      branch = (\<lambda>from to. [0xE9, of_nat to, of_nat (to div 256), of_nat (to div 65536),
                            of_nat (to div 16777216)]),
      nop = 0x90,
      granularity = 1,
      relocate = (\<lambda>bs old new. Some bs),
      make_writable = (\<lambda>a n. True)\<rparr>"

definition demo_engine :: engine where
  "demo_engine = engine_init (\<lambda>a. of_nat a) 0x100000"

text \<open>The engine after a hook on \<open>0x3000\<close> with the replacement at \<open>0x1000\<close>.\<close>

definition demo_patched :: engine where
  "demo_patched =
     commit toy_arch 0x3000 0x1000 8 (read_bytes (memory demo_engine) 0x3000 8) demo_engine"

section \<open>The module in a process that has the engine\<close>

text \<open>
  Modelled from the spec: the capability \<open>hook(target, replacement)\<close> of section 6,
  giving the trampoline address or an error; its code is not in the repository. The
  calling convention is that of native\_api.hpp: the result is \<open>0\<close> on success, and
  on success the trampoline address is stored where \<open>backup\<close> points. A null target
  or replacement is not a valid address.
\<close>

definition engine_hook :: "arch \<Rightarrow> engine HookFunType" where
  "engine_hook A func replace b s =
     (case (func, replace) of
        (Some t, Some r) \<Rightarrow>
          (case install A t r s of
             (Inr tramp, s') \<Rightarrow> (0, Some tramp, s')
           | (Inl e, s') \<Rightarrow> (- 1, b, s'))
      | _ \<Rightarrow> (- 1, b, s))"

text \<open>
  Modelled from the spec: the capability \<open>unhook(target)\<close> of section 6, whose code is
  not in the repository, with the result \<open>0\<close> on success as native\_api.hpp says.
\<close>

definition engine_unhook :: "engine UnhookFunType" where
  "engine_unhook func s =
     (case func of
        None \<Rightarrow> (- 1, s)
      | Some t \<Rightarrow>
          (case remove t s of
             (Inr u, s') \<Rightarrow> (0, s')
           | (Inl e, s') \<Rightarrow> (- 1, s')))"

text \<open>
  Modelled from the spec: a call, from inside a replacement, of a function \<open>int()\<close> at
  an address, in a process patched by the missing engine. \<open>code t\<close> is the value the function whose own code starts at \<open>t\<close>
  returns; through a trampoline the call reaches the original code of the hooked
  target (section 8).
\<close>

definition native_call ::
  "(addr \<Rightarrow> c_int) \<Rightarrow> addr \<Rightarrow> engine \<Rightarrow> fault + (c_int \<times> engine)" where
  "native_call code a s =
     (case resolve s a of
        Original t \<Rightarrow> Inr (code t, s)
      | Replacement r \<Rightarrow> Inr (code r, s))"

text \<open>
  Modelled from the spec: a call of the function at an address by the application, in a
  process patched by the missing engine. When the address is hooked with the module's
  \<open>fake\<close> as replacement, \<open>fake\<close> runs.
\<close>

definition call_target ::
  "engine platform \<Rightarrow> addr \<Rightarrow> engine world \<Rightarrow> fault + (c_int \<times> engine world)" where
  "call_target P a w =
     (case resolve (host w) a of
        Replacement r \<Rightarrow>
          if r = fake_addr P then fake P w else invoke (call_int P) (Some r) w
      | Original t \<Rightarrow> invoke (call_int P) (Some a) w)"

subsection \<open>A concrete process with the engine\<close>

text \<open>
  The library \<open>libtarget.so\<close> has \<open>target_fun\<close> at \<open>0x3000\<close>, and it returns 41. The
  host's capability table holds the engine's two functions.
\<close>

definition engine_platform :: "engine platform" where
  "engine_platform =
     \<lparr>fake_addr = 0x1000, fake_fopen_addr = 0x1100, fake_FindClass_addr = 0x1200,
      on_library_loaded_addr = 0x1300, fopen_addr = 0x2000,
      dlsym = (\<lambda>h s. if s = ''target_fun'' then Some 0x3000 else None),
      call_int = native_call (\<lambda>a. if a = 0x3000 then 41 else 0),
      call_fopen = (\<lambda>a f m s. Inr (None, s)),
      call_FindClass = (\<lambda>a e n s. Inr (None, s))\<rparr>"

definition engine_entries :: "engine NativeAPIEntries" where
  "engine_entries =
     \<lparr>version = 2, hookFunc = Some (engine_hook toy_arch), unhookFunc = Some engine_unhook\<rparr>"

text \<open>The module after \<open>native_init\<close> has run on that table: \<open>fopen\<close> is hooked.\<close>

definition engine_initialised :: "engine world" where
  "engine_initialised =
     \<lparr>hook_func = Some (engine_hook toy_arch), backup = None, backup_fopen = Some 0x100000,
      backup_FindClass = None,
      host = commit toy_arch 0x2000 0x1100 8 (read_bytes (memory demo_engine) 0x2000 8)
               demo_engine,
      trace = [LogD ''NativeOnModuleLoaded called'',
               HookCall (Some 0x2000) (Some 0x1100) Slot_backup_fopen]\<rparr>"

section \<open>Properties of the module\<close>

subsection \<open>The library functions meet their contracts\<close>

lemma strstr_Some_iff:
  "strstr h n \<noteq> None \<longleftrightarrow> (\<exists>pre post. h = pre @ n @ post)"
proof (induction h)
  case Nil
  then show ?case by auto
next
  case (Cons c cs)
  show ?case
  proof (cases "take (length n) (c # cs) = n")
    case True
    then have "c # cs = [] @ n @ drop (length n) (c # cs)"
      by (metis append_Nil append_take_drop_id)
    then have "\<exists>pre post. c # cs = pre @ n @ post" by blast
    with True show ?thesis by simp
  next
    case False
    have "(\<exists>pre post. c # cs = pre @ n @ post) \<longleftrightarrow> (\<exists>pre post. cs = pre @ n @ post)"
    proof
      assume "\<exists>pre post. c # cs = pre @ n @ post"
      then obtain pre post where e: "c # cs = pre @ n @ post" by blast
      show "\<exists>pre post. cs = pre @ n @ post"
      proof (cases pre)
        case Nil
        with e have "take (length n) (c # cs) = n" by simp
        with False show ?thesis by simp
      next
        case (Cons p ps)
        with e have "cs = ps @ n @ post" by simp
        then show ?thesis by blast
      qed
    next
      assume "\<exists>pre post. cs = pre @ n @ post"
      then obtain pre post where "cs = pre @ n @ post" by blast
      then have "c # cs = (c # pre) @ n @ post" by simp
      then show "\<exists>pre post. c # cs = pre @ n @ post" by blast
    qed
    with False Cons.IH show ?thesis by simp
  qed
qed

lemma strcmp_eq_0_iff: "strcmp a b = 0 \<longleftrightarrow> a = b"
  by (induction a b rule: strcmp.induct) auto

lemma ends_with_iff: "ends_with s x \<longleftrightarrow> (\<exists>pre. s = pre @ x)"
proof
  assume "ends_with s x"
  then have "s = take (length s - length x) s @ x"
    by (metis append_take_drop_id ends_with_def)
  then show "\<exists>pre. s = pre @ x" by blast
next
  assume "\<exists>pre. s = pre @ x"
  then show "ends_with s x" by (auto simp: ends_with_def)
qed

subsection \<open>Calls through the module's pointers\<close>

lemma hook_calls_append: "hook_calls (xs @ ys) = hook_calls xs @ hook_calls ys"
  by (induction xs rule: hook_calls.induct) auto

lemma call_hook_func_Some:
  "hook_func w = Some hf \<Longrightarrow>
   call_hook_func target replace s w =
     Inr (set_slot s (fst (snd (hf target replace (get_slot s w) (host w))))
           (emit (HookCall target replace s)
              (w\<lparr>host := snd (snd (hf target replace (get_slot s w) (host w)))\<rparr>)))"
  by (simp add: call_hook_func_def split: prod.splits)

lemma call_hook_func_None:
  "hook_func w = None \<Longrightarrow> call_hook_func target replace s w = Inl NullFunctionCall"
  by (simp add: call_hook_func_def)

lemma call_hook_func_trace:
  "call_hook_func target replace s w = Inr w' \<Longrightarrow>
   trace w' = trace w @ [HookCall target replace s] \<and> hook_func w' = hook_func w"
  by (auto simp: call_hook_func_def set_slot_def emit_def
           split: option.splits prod.splits slot.splits)

lemma invoke_keeps:
  "invoke f p w = Inr (r, w') \<Longrightarrow> trace w' = trace w \<and> hook_func w' = hook_func w"
  by (auto simp: invoke_def split: option.splits sum.splits prod.splits)

subsection \<open>The replacement for fopen\<close>

text \<open>
  C1. For every filename and mode, \<open>fake_fopen\<close> returns the null result, without
  calling anything, when the filename contains \<open>banned\<close> as a substring; for every
  other filename its result is the result of the call through \<open>backup_fopen\<close> with the
  same filename and mode. So \<open>banned.txt\<close> is refused and \<open>ok.txt\<close> is passed on.
\<close>

theorem fake_fopen_rejects_banned:
  "fake_fopen P filename mode w =
     (if (\<exists>pre post. filename = pre @ ''banned'' @ post) then Inr (None, w)
      else invoke (\<lambda>a. call_fopen P a filename mode) (backup_fopen w) w)"
  unfolding fake_fopen_def strstr_Some_iff by (rule refl)

theorem fake_fopen_rejects_banned_witness:
  "fake_fopen demo_platform ''banned.txt'' ''r'' demo_hooked = Inr (None, demo_hooked) \<and>
   fake_fopen demo_platform ''ok.txt'' ''r'' demo_hooked
     = Inr (Some 0x5000, demo_hooked\<lparr>host := 4\<rparr>)"
proof -
  have yes: "\<exists>pre post. ''banned.txt'' = pre @ ''banned'' @ post"
    by (rule exI [of _ "[]"], rule exI [of _ "''.txt''"]) simp
  have "strstr ''ok.txt'' ''banned'' = None" by simp
  then have no: "\<not> (\<exists>pre post. ''ok.txt'' = pre @ ''banned'' @ post)"
    using strstr_Some_iff [of "''ok.txt''" "''banned''"] by simp
  have inv:
    "invoke (\<lambda>a. call_fopen demo_platform a ''ok.txt'' ''r'') (backup_fopen demo_hooked)
       demo_hooked = Inr (Some 0x5000, demo_hooked\<lparr>host := 4\<rparr>)"
    by (simp add: invoke_def demo_platform_def demo_hooked_def)
  show ?thesis
    using fake_fopen_rejects_banned [of demo_platform "''banned.txt''" "''r''" demo_hooked]
      fake_fopen_rejects_banned [of demo_platform "''ok.txt''" "''r''" demo_hooked]
      yes no inv
    by simp
qed

subsection \<open>The replacement for FindClass\<close>

text \<open>
  C9. \<open>fake_FindClass\<close> returns the null class of its own accord exactly for the name
  \<open>dalvik/system/BaseDexClassLoader\<close>, compared as a whole string; for every other
  name, one that merely contains it included, its result is the result of the call
  through \<open>backup_FindClass\<close> with the same environment and name.
\<close>

theorem fake_FindClass_blocks_exact_name:
  "fake_FindClass P env name w =
     (if name = ''dalvik/system/BaseDexClassLoader'' then Inr (None, w)
      else invoke (\<lambda>a. call_FindClass P a env name) (backup_FindClass w) w)"
  unfolding fake_FindClass_def strcmp_eq_0_iff by (rule refl)

theorem fake_FindClass_blocks_exact_name_witness:
  "fake_FindClass demo_platform None ''dalvik/system/BaseDexClassLoader'' demo_hooked
     = Inr (None, demo_hooked) \<and>
   fake_FindClass demo_platform None ''dalvik/system/BaseDexClassLoaderX'' demo_hooked
     = Inr (Some 0x6000, demo_hooked\<lparr>host := 4\<rparr>) \<and>
   fake_FindClass demo_platform None ''java/lang/String'' demo_hooked
     = Inr (Some 0x6000, demo_hooked\<lparr>host := 4\<rparr>)"
proof -
  have inv:
    "\<And>n. invoke (\<lambda>a. call_FindClass demo_platform a None n) (backup_FindClass demo_hooked)
       demo_hooked = Inr (Some 0x6000, demo_hooked\<lparr>host := 4\<rparr>)"
    by (simp add: invoke_def demo_platform_def demo_hooked_def)
  show ?thesis
    using fake_FindClass_blocks_exact_name
        [of demo_platform None "''dalvik/system/BaseDexClassLoader''" demo_hooked]
      fake_FindClass_blocks_exact_name
        [of demo_platform None "''dalvik/system/BaseDexClassLoaderX''" demo_hooked]
      fake_FindClass_blocks_exact_name
        [of demo_platform None "''java/lang/String''" demo_hooked]
      inv
    by simp
qed

subsection \<open>native\_init\<close>

text \<open>
  C3. A call of \<open>native_init\<close> with a capability table whose \<open>hookFunc\<close> is a function
  stores that pointer in the global \<open>hook_func\<close> and returns the address of
  \<open>on_library_loaded\<close>, which is not null.
\<close>

theorem native_init_saves_hookFunc:
  assumes "hookFunc entries = Some hf"
  shows "\<exists>w'. native_init P entries w = Inr (Some (on_library_loaded_addr P), w') \<and>
              hook_func w' = hookFunc entries"
  using assms
  by (simp add: native_init_def call_hook_func_Some emit_def set_slot_def get_slot_def)

theorem native_init_saves_hookFunc_witness:
  "hookFunc demo_entries = Some demo_hook \<and>
   (\<exists>w'. native_init demo_platform demo_entries (module_loaded 0) = Inr (Some 0x1300, w') \<and>
         hook_func w' = Some demo_hook)"
proof -
  have h: "hookFunc demo_entries = Some demo_hook" by (simp add: demo_entries_def)
  have a: "on_library_loaded_addr demo_platform = 0x1300" by (simp add: demo_platform_def)
  show ?thesis
    using native_init_saves_hookFunc [OF h, of demo_platform "module_loaded 0"] h a by simp
qed

subsection \<open>on\_library\_loaded\<close>

text \<open>
  C4. Once \<open>hook_func\<close> holds the host's hook function: for every library name and
  handle, when the name ends with \<open>libtarget.so\<close> the callback looks \<open>target_fun\<close> up
  through the handle and makes one call of the hook function, with the address found
  as target, \<open>fake\<close> as replacement and the global \<open>backup\<close> as the place for the backup
  pointer; when the name does not end with \<open>libtarget.so\<close> it calls nothing and leaves
  the module's state as it was.
\<close>

theorem on_library_loaded_hooks_target_fun:
  assumes "hook_func w = Some hf"
  shows "on_library_loaded P name handle w =
     (if (\<exists>pre. name = pre @ ''libtarget.so'') then
        (case hf (dlsym P handle ''target_fun'') (Some (fake_addr P)) (backup w) (host w) of
           (rc, b', h') \<Rightarrow>
             Inr (w\<lparr>backup := b', host := h',
                    trace := trace w @
                      [DlsymCall handle ''target_fun'',
                       HookCall (dlsym P handle ''target_fun'') (Some (fake_addr P))
                         Slot_backup]\<rparr>))
      else Inr w)"
  using assms
  by (simp add: on_library_loaded_def ends_with_iff call_hook_func_def emit_def
        set_slot_def get_slot_def split: prod.splits)

theorem on_library_loaded_hooks_target_fun_witness:
  "hook_func demo_hooked = Some demo_hook \<and>
   on_library_loaded demo_platform ''/data/app/lib/arm64/libtarget.so'' (Some 7) demo_hooked =
     Inr (demo_hooked\<lparr>backup := Some 0x7000, host := 4,
            trace := [DlsymCall (Some 7) ''target_fun'',
                      HookCall (Some 0x3000) (Some 0x1000) Slot_backup]\<rparr>) \<and>
   on_library_loaded demo_platform ''libtarget.so.1'' (Some 7) demo_hooked = Inr demo_hooked"
proof -
  have h: "hook_func demo_hooked = Some demo_hook" by (simp add: demo_hooked_def)
  have yes: "\<exists>pre. ''/data/app/lib/arm64/libtarget.so'' = pre @ ''libtarget.so''"
    by (rule exI [of _ "''/data/app/lib/arm64/''"]) simp
  have "\<not> ends_with ''libtarget.so.1'' ''libtarget.so''" by (simp add: ends_with_def)
  then have no: "\<not> (\<exists>pre. ''libtarget.so.1'' = pre @ ''libtarget.so'')"
    by (simp add: ends_with_iff)
  have v: "dlsym demo_platform (Some 7) ''target_fun'' = Some 0x3000"
    "fake_addr demo_platform = 0x1000" "backup demo_hooked = Some 0x7000"
    "host demo_hooked = 3" "trace demo_hooked = []"
    by (simp_all add: demo_platform_def demo_hooked_def)
  show ?thesis
    using on_library_loaded_hooks_target_fun
        [OF h, of demo_platform "''/data/app/lib/arm64/libtarget.so''" "Some 7"]
      on_library_loaded_hooks_target_fun [OF h, of demo_platform "''libtarget.so.1''" "Some 7"]
      h yes no v
    by (simp add: demo_hook_def)
qed

subsection \<open>Every hook installation of the module\<close>

lemma map_sum_snd_Inr: "map_sum id snd x = Inr w' \<Longrightarrow> \<exists>r. x = Inr (r, w')"
  by (cases x) auto

lemma step_hook_calls:
  assumes "step P c w = Inr w'"
  shows "hook_calls (trace w') = hook_calls (trace w) @ installations P c"
proof (cases c)
  case (Call_native_init entries)
  with assms show ?thesis
    by (auto simp: step_def native_init_def installations_def emit_def hook_calls_append
        split: sum.splits dest!: call_hook_func_trace)
next
  case (Call_JNI_OnLoad jvm)
  with assms show ?thesis
    by (auto simp: step_def JNI_OnLoad_def installations_def emit_def hook_calls_append
        split: sum.splits option.splits dest!: call_hook_func_trace)
next
  case (Call_on_library_loaded name handle)
  with assms show ?thesis
    by (auto simp: step_def on_library_loaded_def installations_def emit_def hook_calls_append
        split: if_splits dest!: call_hook_func_trace)
next
  case Call_fake
  with assms show ?thesis
    by (auto simp: step_def fake_def installations_def
        split: sum.splits prod.splits dest!: invoke_keeps)
next
  case (Call_fake_fopen filename mode)
  with assms show ?thesis
    by (auto simp: step_def fake_fopen_def installations_def
        split: if_splits dest!: map_sum_snd_Inr invoke_keeps)
next
  case (Call_fake_FindClass env name)
  with assms show ?thesis
    by (auto simp: step_def fake_FindClass_def installations_def
        split: if_splits dest!: map_sum_snd_Inr invoke_keeps)
qed

lemma native_init_exact:
  "native_init P entries w =
     (case hookFunc entries of
        None \<Rightarrow> Inl NullFunctionCall
      | Some hf \<Rightarrow>
          (case hf (Some (fopen_addr P)) (Some (fake_fopen_addr P)) (backup_fopen w) (host w) of
             (rc, b', h') \<Rightarrow>
               Inr (Some (on_library_loaded_addr P),
                    w\<lparr>hook_func := Some hf, backup_fopen := b', host := h',
                      trace := trace w @
                        [LogD ''NativeOnModuleLoaded called'',
                         HookCall (Some (fopen_addr P)) (Some (fake_fopen_addr P))
                           Slot_backup_fopen]\<rparr>)))"
  by (simp add: native_init_def call_hook_func_def emit_def set_slot_def get_slot_def
      split: option.splits prod.splits)

lemma JNI_OnLoad_exact:
  "JNI_OnLoad P jvm w =
     (case snd (GetEnv jvm JNI_VERSION_1_6) of
        None \<Rightarrow> Inl NullDereference
      | Some env \<Rightarrow>
          (case hook_func w of
             None \<Rightarrow> Inl NullFunctionCall
           | Some hf \<Rightarrow>
               (case hf (FindClass env) (Some (fake_FindClass_addr P)) (backup_FindClass w)
                       (host w) of
                  (rc, b', h') \<Rightarrow>
                    Inr (JNI_VERSION_1_6,
                         w\<lparr>backup_FindClass := b', host := h',
                           trace := trace w @
                             [LogD ''JNI_OnLoad called'', GetEnvCall JNI_VERSION_1_6,
                              HookCall (FindClass env) (Some (fake_FindClass_addr P))
                                Slot_backup_FindClass]\<rparr>))))"
  by (simp add: JNI_OnLoad_def call_hook_func_def emit_def set_slot_def get_slot_def Let_def
      split: option.splits prod.splits)

lemma on_library_loaded_exact:
  "on_library_loaded P name handle w =
     (if (\<exists>pre. name = pre @ ''libtarget.so'') then
        (case hook_func w of
           None \<Rightarrow> Inl NullFunctionCall
         | Some hf \<Rightarrow>
             (case hf (dlsym P handle ''target_fun'') (Some (fake_addr P)) (backup w)
                     (host w) of
                (rc, b', h') \<Rightarrow>
                  Inr (w\<lparr>backup := b', host := h',
                         trace := trace w @
                           [DlsymCall handle ''target_fun'',
                            HookCall (dlsym P handle ''target_fun'') (Some (fake_addr P))
                              Slot_backup]\<rparr>)))
      else Inr w)"
  by (simp add: on_library_loaded_def ends_with_iff call_hook_func_def emit_def
      set_slot_def get_slot_def split: option.splits prod.splits)

lemma fake_exact:
  "fake P w =
     (case backup w of
        None \<Rightarrow> Inl NullFunctionCall
      | Some a \<Rightarrow>
          (case call_int P a (host w) of
             Inl e \<Rightarrow> Inl e
           | Inr (r, h') \<Rightarrow> Inr (r + 1, w\<lparr>host := h'\<rparr>)))"
  by (simp add: fake_def invoke_def split: option.splits sum.splits prod.splits)

lemma fake_fopen_exact:
  "fake_fopen P filename mode w =
     (if (\<exists>pre post. filename = pre @ ''banned'' @ post) then Inr (None, w)
      else
        (case backup_fopen w of
           None \<Rightarrow> Inl NullFunctionCall
         | Some a \<Rightarrow>
             (case call_fopen P a filename mode (host w) of
                Inl e \<Rightarrow> Inl e
              | Inr (r, h') \<Rightarrow> Inr (r, w\<lparr>host := h'\<rparr>))))"
  unfolding fake_fopen_def strstr_Some_iff
  by (simp add: invoke_def split: option.splits sum.splits prod.splits)

lemma fake_FindClass_exact:
  "fake_FindClass P env name w =
     (if name = ''dalvik/system/BaseDexClassLoader'' then Inr (None, w)
      else
        (case backup_FindClass w of
           None \<Rightarrow> Inl NullFunctionCall
         | Some a \<Rightarrow>
             (case call_FindClass P a env name (host w) of
                Inl e \<Rightarrow> Inl e
              | Inr (r, h') \<Rightarrow> Inr (r, w\<lparr>host := h'\<rparr>))))"
  unfolding fake_FindClass_def strcmp_eq_0_iff
  by (simp add: invoke_def split: option.splits sum.splits prod.splits)


lemma run_hook_calls:
  assumes "run P cs w = Inr w'"
  shows "hook_calls (trace w') = hook_calls (trace w) @ concat (map (installations P) cs)"
  using assms
proof (induction cs arbitrary: w)
  case Nil
  then show ?case by simp
next
  case (Cons c cs)
  then obtain w1 where s: "step P c w = Inr w1" and r: "run P cs w1 = Inr w'"
    by (auto split: sum.splits)
  from Cons.IH [OF r] step_hook_calls [OF s] show ?case by simp
qed

text \<open>
  C5. The module calls the hook function at three places and nowhere else. Each of the
  three entry points applies it once, and stores what it puts into the backup
  location: \<open>native_init\<close> to \<open>fopen\<close> with the replacement \<open>fake_fopen\<close> and the
  location \<open>backup_fopen\<close>; \<open>JNI_OnLoad\<close> to the \<open>FindClass\<close> entry of the JNI table
  with \<open>fake_FindClass\<close> and \<open>backup_FindClass\<close>; \<open>on_library_loaded\<close>, for a library
  whose name ends with \<open>libtarget.so\<close>, to \<open>target_fun\<close> with \<open>fake\<close> and \<open>backup\<close>.
  The state of the process afterwards is the one the hook function returned, and the
  call is recorded in the trace. The three replacement functions only call through
  their backup pointer. So in every execution the recorded calls of the hook
  function are those of the three places, in the order of the execution.
\<close>

theorem module_installs_three_hooks:
  "native_init P entries w =
     (case hookFunc entries of
        None \<Rightarrow> Inl NullFunctionCall
      | Some hf \<Rightarrow>
          (case hf (Some (fopen_addr P)) (Some (fake_fopen_addr P)) (backup_fopen w) (host w) of
             (rc, b', h') \<Rightarrow>
               Inr (Some (on_library_loaded_addr P),
                    w\<lparr>hook_func := Some hf, backup_fopen := b', host := h',
                      trace := trace w @
                        [LogD ''NativeOnModuleLoaded called'',
                         HookCall (Some (fopen_addr P)) (Some (fake_fopen_addr P))
                           Slot_backup_fopen]\<rparr>))) \<and>
   JNI_OnLoad P jvm w =
     (case snd (GetEnv jvm JNI_VERSION_1_6) of
        None \<Rightarrow> Inl NullDereference
      | Some env \<Rightarrow>
          (case hook_func w of
             None \<Rightarrow> Inl NullFunctionCall
           | Some hf \<Rightarrow>
               (case hf (FindClass env) (Some (fake_FindClass_addr P)) (backup_FindClass w)
                       (host w) of
                  (rc, b', h') \<Rightarrow>
                    Inr (JNI_VERSION_1_6,
                         w\<lparr>backup_FindClass := b', host := h',
                           trace := trace w @
                             [LogD ''JNI_OnLoad called'', GetEnvCall JNI_VERSION_1_6,
                              HookCall (FindClass env) (Some (fake_FindClass_addr P))
                                Slot_backup_FindClass]\<rparr>)))) \<and>
   on_library_loaded P name handle w =
     (if (\<exists>pre. name = pre @ ''libtarget.so'') then
        (case hook_func w of
           None \<Rightarrow> Inl NullFunctionCall
         | Some hf \<Rightarrow>
             (case hf (dlsym P handle ''target_fun'') (Some (fake_addr P)) (backup w)
                     (host w) of
                (rc, b', h') \<Rightarrow>
                  Inr (w\<lparr>backup := b', host := h',
                         trace := trace w @
                           [DlsymCall handle ''target_fun'',
                            HookCall (dlsym P handle ''target_fun'') (Some (fake_addr P))
                              Slot_backup]\<rparr>)))
      else Inr w) \<and>
   fake P w =
     (case backup w of
        None \<Rightarrow> Inl NullFunctionCall
      | Some a \<Rightarrow>
          (case call_int P a (host w) of
             Inl e \<Rightarrow> Inl e
           | Inr (r, h') \<Rightarrow> Inr (r + 1, w\<lparr>host := h'\<rparr>))) \<and>
   fake_fopen P filename mode w =
     (if (\<exists>pre post. filename = pre @ ''banned'' @ post) then Inr (None, w)
      else
        (case backup_fopen w of
           None \<Rightarrow> Inl NullFunctionCall
         | Some a \<Rightarrow>
             (case call_fopen P a filename mode (host w) of
                Inl e \<Rightarrow> Inl e
              | Inr (r, h') \<Rightarrow> Inr (r, w\<lparr>host := h'\<rparr>)))) \<and>
   fake_FindClass P jenv cname w =
     (if cname = ''dalvik/system/BaseDexClassLoader'' then Inr (None, w)
      else
        (case backup_FindClass w of
           None \<Rightarrow> Inl NullFunctionCall
         | Some a \<Rightarrow>
             (case call_FindClass P a jenv cname (host w) of
                Inl e \<Rightarrow> Inl e
              | Inr (r, h') \<Rightarrow> Inr (r, w\<lparr>host := h'\<rparr>)))) \<and>
   (run P cs w = Inr w' \<longrightarrow>
      hook_calls (trace w') = hook_calls (trace w) @ concat (map (installations P) cs))"
  by (intro conjI impI)
     (rule native_init_exact JNI_OnLoad_exact on_library_loaded_exact fake_exact
        fake_fopen_exact fake_FindClass_exact run_hook_calls, (assumption)?)+

lemma demo_run_ok: "\<exists>w'. run demo_platform demo_calls (module_loaded 0) = Inr w'"
  by (simp add: demo_calls_def step_def native_init_def JNI_OnLoad_def on_library_loaded_def
      fake_def fake_fopen_def fake_FindClass_def call_hook_func_def invoke_def emit_def
      set_slot_def get_slot_def ends_with_def module_loaded_def demo_platform_def demo_hook_def
      demo_entries_def demo_jvm_def JNI_VERSION_1_6_def)

theorem module_installs_three_hooks_witness:
  "native_init demo_platform demo_entries (module_loaded 0)
     = Inr (Some 0x1300, demo_initialised) \<and>
   JNI_OnLoad demo_platform demo_jvm demo_initialised =
     Inr (0x10006,
          demo_initialised\<lparr>backup_FindClass := Some 0x7000, host := 2,
            trace := trace demo_initialised @
              [LogD ''JNI_OnLoad called'', GetEnvCall 0x10006,
               HookCall (Some 0x4000) (Some 0x1200) Slot_backup_FindClass]\<rparr>) \<and>
   on_library_loaded demo_platform ''libtarget.so'' (Some 7) demo_initialised =
     Inr (demo_initialised\<lparr>backup := Some 0x7000, host := 2,
            trace := trace demo_initialised @
              [DlsymCall (Some 7) ''target_fun'',
               HookCall (Some 0x3000) (Some 0x1000) Slot_backup]\<rparr>) \<and>
   on_library_loaded demo_platform ''libc.so'' (Some 6) demo_initialised = Inr demo_initialised \<and>
   fake demo_platform demo_hooked = Inr (42, demo_hooked\<lparr>host := 4\<rparr>) \<and>
   fake_fopen demo_platform ''ok.txt'' ''r'' demo_hooked
     = Inr (Some 0x5000, demo_hooked\<lparr>host := 4\<rparr>) \<and>
   fake_FindClass demo_platform None ''java/lang/String'' demo_hooked
     = Inr (Some 0x6000, demo_hooked\<lparr>host := 4\<rparr>) \<and>
   (\<exists>w'. run demo_platform demo_calls (module_loaded 0) = Inr w' \<and>
      hook_calls (trace w') =
        [(Some 0x2000, Some 0x1100, Slot_backup_fopen),
         (Some 0x4000, Some 0x1200, Slot_backup_FindClass),
         (Some 0x3000, Some 0x1000, Slot_backup)])"
proof -
  from demo_run_ok obtain w' where r: "run demo_platform demo_calls (module_loaded 0) = Inr w'"
    by blast
  have i: "concat (map (installations demo_platform) demo_calls) =
       [(Some 0x2000, Some 0x1100, Slot_backup_fopen),
        (Some 0x4000, Some 0x1200, Slot_backup_FindClass),
        (Some 0x3000, Some 0x1000, Slot_backup)]"
    by (simp add: demo_calls_def installations_def demo_platform_def demo_jvm_def ends_with_def)
  have t: "hook_calls (trace (module_loaded (0::nat))) = []" by (simp add: module_loaded_def)
  have yes: "\<exists>pre. ''libtarget.so'' = pre @ ''libtarget.so''" by simp
  have "\<not> ends_with ''libc.so'' ''libtarget.so''" by (simp add: ends_with_def)
  then have no: "\<not> (\<exists>pre. ''libc.so'' = pre @ ''libtarget.so'')"
    by (simp add: ends_with_iff)
  have "strstr ''ok.txt'' ''banned'' = None" by simp
  then have ok: "\<not> (\<exists>pre post. ''ok.txt'' = pre @ ''banned'' @ post)"
    using strstr_Some_iff [of "''ok.txt''" "''banned''"] by simp
  note a = module_installs_three_hooks
    [where P = demo_platform and entries = demo_entries and w = "module_loaded 0"
       and jvm = demo_jvm and name = "''libc.so''" and handle = "Some 6"
       and filename = "''ok.txt''" and mode = "''r''" and jenv = None
       and cname = "''java/lang/String''" and cs = demo_calls and w' = w']
  note b = module_installs_three_hooks
    [where P = demo_platform and entries = demo_entries and w = demo_initialised
       and jvm = demo_jvm and name = "''libtarget.so''" and handle = "Some 7"
       and filename = "''ok.txt''" and mode = "''r''" and jenv = None
       and cname = "''java/lang/String''" and cs = "[]" and w' = demo_initialised]
  note c = module_installs_three_hooks
    [where P = demo_platform and entries = demo_entries and w = demo_initialised
       and jvm = demo_jvm and name = "''libc.so''" and handle = "Some 6"
       and filename = "''ok.txt''" and mode = "''r''" and jenv = None
       and cname = "''java/lang/String''" and cs = "[]" and w' = demo_initialised]
  note d = module_installs_three_hooks
    [where P = demo_platform and entries = demo_entries and w = demo_hooked
       and jvm = demo_jvm and name = "''libc.so''" and handle = "Some 6"
       and filename = "''ok.txt''" and mode = "''r''" and jenv = None
       and cname = "''java/lang/String''" and cs = "[]" and w' = demo_hooked]
  have 1: "native_init demo_platform demo_entries (module_loaded 0)
     = Inr (Some 0x1300, demo_initialised)"
    using a by (simp add: demo_entries_def demo_hook_def demo_platform_def module_loaded_def
        demo_initialised_def)
  have 2: "JNI_OnLoad demo_platform demo_jvm demo_initialised =
     Inr (0x10006,
          demo_initialised\<lparr>backup_FindClass := Some 0x7000, host := 2,
            trace := trace demo_initialised @
              [LogD ''JNI_OnLoad called'', GetEnvCall 0x10006,
               HookCall (Some 0x4000) (Some 0x1200) Slot_backup_FindClass]\<rparr>)"
    using b by (simp add: demo_jvm_def demo_hook_def demo_platform_def demo_initialised_def
        JNI_VERSION_1_6_def)
  have 3: "on_library_loaded demo_platform ''libtarget.so'' (Some 7) demo_initialised =
     Inr (demo_initialised\<lparr>backup := Some 0x7000, host := 2,
            trace := trace demo_initialised @
              [DlsymCall (Some 7) ''target_fun'',
               HookCall (Some 0x3000) (Some 0x1000) Slot_backup]\<rparr>)"
    using b yes by (simp add: demo_hook_def demo_platform_def demo_initialised_def)
  have 4: "on_library_loaded demo_platform ''libc.so'' (Some 6) demo_initialised
      = Inr demo_initialised"
    using c no by simp
  have 5: "fake demo_platform demo_hooked = Inr (42, demo_hooked\<lparr>host := 4\<rparr>)"
    using d by (simp add: demo_platform_def demo_hooked_def)
  have 6: "fake_fopen demo_platform ''ok.txt'' ''r'' demo_hooked
     = Inr (Some 0x5000, demo_hooked\<lparr>host := 4\<rparr>)"
    using d ok by (simp add: demo_platform_def demo_hooked_def)
  have 7: "fake_FindClass demo_platform None ''java/lang/String'' demo_hooked
     = Inr (Some 0x6000, demo_hooked\<lparr>host := 4\<rparr>)"
    using d by (simp add: demo_platform_def demo_hooked_def)
  have 8: "hook_calls (trace w') =
        [(Some 0x2000, Some 0x1100, Slot_backup_fopen),
         (Some 0x4000, Some 0x1200, Slot_backup_FindClass),
         (Some 0x3000, Some 0x1000, Slot_backup)]"
    using a r i t by simp
  from 1 2 3 4 5 6 7 8 r show ?thesis by blast
qed

subsection \<open>The unhook capability\<close>

lemma step_with_unhook: "step P (with_unhook u c) w = step P c w"
  by (cases c) (simp_all add: step_def with_unhook_def native_init_def)

text \<open>
  C6. The module never uses the unhook capability: whatever \<open>unhookFunc\<close> the table
  passed to \<open>native_init\<close> holds, every execution of the module's functions has the
  same outcome, the same state of the module and of the process, and the same trace
  of calls. The pointer is neither kept in the module's state nor called, so the
  module removes no hook.
\<close>

theorem unhookFunc_never_used:
  "run P (map (with_unhook u) cs) w = run P cs w"
  by (induction cs arbitrary: w) (simp_all add: step_with_unhook split: sum.splits)

theorem unhookFunc_never_used_witness:
  "run demo_platform
     [Call_native_init (demo_entries\<lparr>unhookFunc := None\<rparr>), Call_JNI_OnLoad demo_jvm,
      Call_on_library_loaded ''libtarget.so'' (Some 7)] (module_loaded 0) =
   run demo_platform
     [Call_native_init demo_entries, Call_JNI_OnLoad demo_jvm,
      Call_on_library_loaded ''libtarget.so'' (Some 7)] (module_loaded 0)"
  using unhookFunc_never_used [of demo_platform None
      "[Call_native_init demo_entries, Call_JNI_OnLoad demo_jvm,
        Call_on_library_loaded ''libtarget.so'' (Some 7)]" "module_loaded 0"]
  by (simp add: with_unhook_def)

subsection \<open>The global hook\_func\<close>

lemma step_hook_func:
  assumes "step P c w = Inr w'"
  shows "hook_func w' =
    (case c of Call_native_init entries \<Rightarrow> hookFunc entries | _ \<Rightarrow> hook_func w)"
proof (cases c)
  case (Call_native_init entries)
  with assms show ?thesis
    by (auto simp: step_def native_init_def emit_def Let_def
        split: sum.splits dest!: call_hook_func_trace)
next
  case (Call_JNI_OnLoad jvm)
  with assms show ?thesis
    by (auto simp: step_def JNI_OnLoad_def emit_def Let_def
        split: sum.splits option.splits dest!: call_hook_func_trace)
next
  case (Call_on_library_loaded name handle)
  with assms show ?thesis
    by (auto simp: step_def on_library_loaded_def emit_def
        split: if_splits dest!: call_hook_func_trace)
next
  case Call_fake
  with assms show ?thesis
    by (auto simp: step_def fake_def split: sum.splits prod.splits dest!: invoke_keeps)
next
  case (Call_fake_fopen filename mode)
  with assms show ?thesis
    by (auto simp: step_def fake_fopen_def
        split: if_splits dest!: map_sum_snd_Inr invoke_keeps)
next
  case (Call_fake_FindClass env name)
  with assms show ?thesis
    by (auto simp: step_def fake_FindClass_def
        split: if_splits dest!: map_sum_snd_Inr invoke_keeps)
qed

text \<open>
  C10, as the code has it. \<open>hook_func\<close> is null when the module is loaded; of the
  module's functions only \<open>native_init\<close> writes it, and it writes \<open>entries->hookFunc\<close>.
  While it is null, \<open>JNI_OnLoad\<close> (once \<open>GetEnv\<close> has provided an environment) calls
  through the null pointer, and so does \<open>on_library_loaded\<close> for a library whose name
  ends with \<open>libtarget.so\<close>; for any other name \<open>on_library_loaded\<close> returns without
  calling anything.
\<close>

theorem hook_func_null_until_native_init:
  "hook_func (module_loaded h) = None \<and>
   (step P c w = Inr w' \<longrightarrow>
      hook_func w' =
        (case c of Call_native_init entries \<Rightarrow> hookFunc entries | _ \<Rightarrow> hook_func w)) \<and>
   (hook_func w = None \<longrightarrow> snd (GetEnv jvm JNI_VERSION_1_6) \<noteq> None \<longrightarrow>
      JNI_OnLoad P jvm w = Inl NullFunctionCall) \<and>
   (hook_func w = None \<longrightarrow>
      on_library_loaded P name handle w =
        (if (\<exists>pre. name = pre @ ''libtarget.so'') then Inl NullFunctionCall else Inr w))"
  by (auto simp: module_loaded_def step_hook_func JNI_OnLoad_def on_library_loaded_def
      ends_with_iff call_hook_func_None emit_def)

theorem hook_func_null_until_native_init_witness:
  "hook_func (module_loaded (0::nat)) = None \<and>
   step demo_platform (Call_native_init demo_entries) (module_loaded 0) = Inr demo_initialised \<and>
   hook_func demo_initialised = Some demo_hook \<and>
   snd (GetEnv demo_jvm JNI_VERSION_1_6) \<noteq> None \<and>
   JNI_OnLoad demo_platform demo_jvm (module_loaded 0) = Inl NullFunctionCall \<and>
   on_library_loaded demo_platform ''libtarget.so'' (Some 7) (module_loaded 0)
     = Inl NullFunctionCall"
proof -
  have s: "step demo_platform (Call_native_init demo_entries) (module_loaded 0)
      = Inr demo_initialised"
    by (simp add: step_def native_init_def call_hook_func_def emit_def set_slot_def
        get_slot_def module_loaded_def demo_platform_def demo_hook_def demo_entries_def
        demo_initialised_def)
  have n: "hook_func (module_loaded (0::nat)) = None" by (simp add: module_loaded_def)
  have g: "snd (GetEnv demo_jvm JNI_VERSION_1_6) \<noteq> None" by (simp add: demo_jvm_def)
  have e: "\<exists>pre. ''libtarget.so'' = pre @ ''libtarget.so''" by simp
  have hf: "hookFunc demo_entries = Some demo_hook" by (simp add: demo_entries_def)
  show ?thesis
    using hook_func_null_until_native_init
        [of "0::nat" demo_platform "Call_native_init demo_entries" "module_loaded 0"
         demo_initialised demo_jvm "''libtarget.so''" "Some 7"]
      s n g e hf
    by simp
qed

text \<open>
  C10, as it is worded, says that invoking \<open>on_library_loaded\<close> before \<open>native_init\<close>
  calls through the null pointer. For a library such as \<open>libc.so\<close> the callback
  returns without any call, with \<open>hook_func\<close> still null.
\<close>

theorem on_library_loaded_before_native_init_counterexample:
  "hook_func (module_loaded (0::nat)) = None \<and>
   on_library_loaded demo_platform ''libc.so'' (Some 6) (module_loaded 0)
     = Inr (module_loaded 0) \<and>
   on_library_loaded demo_platform ''libc.so'' (Some 6) (module_loaded 0)
     \<noteq> Inl NullFunctionCall"
  by (simp add: on_library_loaded_def ends_with_def module_loaded_def)

section \<open>Properties of the hook engine\<close>

subsection \<open>The split point and the bytes of a patch\<close>

lemma split_point_ge: "split_point A m t need n = Some k \<Longrightarrow> need \<le> k \<and> n \<le> k"
proof (induction A m t need n rule: split_point.induct)
  case (1 A m t need n)
  show ?case
  proof (cases "need \<le> n")
    case True
    with "1.prems" show ?thesis by simp
  next
    case False
    with "1.prems" obtain l where l: "insn_length A m (t + n) = Some l" "l \<noteq> 0"
      and r: "split_point A m t need (n + l) = Some k"
      by (auto split: option.splits if_splits)
    from "1.IH" [OF False l(1) l(2) r] show ?thesis by simp
  qed
qed

lemma round_up_ge: "n \<le> round_up n g"
proof (cases "g = 0")
  case True
  then show ?thesis by (simp add: round_up_def)
next
  case False
  then have "n + g - 1 < ((n + g - 1) div g) * g + g"
    using div_mult_mod_eq [of "n + g - 1" g] mod_less_divisor [of g "n + g - 1"] by linarith
  with False show ?thesis by (simp add: round_up_def)
qed

lemma length_redirect:
  "length (branch A t r) \<le> n \<Longrightarrow> length (redirect A t r n) = n"
  by (simp add: redirect_def)

lemma length_read_bytes: "length (read_bytes m a n) = n"
  by (simp add: read_bytes_def)

lemma write_read_restore:
  "length bs = n \<Longrightarrow> write_bytes (write_bytes m a bs) a (read_bytes m a n) = m"
  by (rule ext) (auto simp: write_bytes_def read_bytes_def)

subsection \<open>The registry\<close>

lemma erase_no_hook: "lookup reg t = None \<Longrightarrow> erase reg t = reg"
  by (induction reg) (auto simp: lookup_def erase_def split: if_splits)

lemma lookup_None_iff:
  "lookup reg t = None \<longleftrightarrow> t \<notin> set (map target_address (filter active reg))"
  by (auto simp: lookup_def find_None_iff)

lemma commit_fields:
  "memory (commit A t rep n moved s) = write_bytes (memory s) t (redirect A t rep n)"
  "registry (commit A t rep n moved s) =
     \<lparr>target_address = t, original_bytes = read_bytes (memory s) t n,
      trampoline_address = next_trampoline s, replacement_address = rep, active = True\<rparr>
     # registry s"
  by (simp_all add: commit_def Let_def)

subsection \<open>The outcomes of install\<close>

lemma install_Inr:
  assumes "install A t rep s = (Inr tr, s')"
  shows "\<exists>n moved. lookup (registry s) t = None \<and>
     split_point A (memory s) t (round_up (length (branch A t rep)) (granularity A)) 0 = Some n \<and>
     tr = next_trampoline s \<and> s' = commit A t rep n moved s"
proof -
  from assms have nh: "lookup (registry s) t = None"
    by (auto simp: install_def split: if_splits)
  from assms nh obtain n where
    sp: "split_point A (memory s) t (round_up (length (branch A t rep)) (granularity A)) 0
           = Some n"
    by (cases "split_point A (memory s) t
                 (round_up (length (branch A t rep)) (granularity A)) 0")
       (auto simp: install_def split: if_splits)
  from assms nh sp obtain moved where
    "relocate A (read_bytes (memory s) t n) t (next_trampoline s) = Some moved"
    by (cases "relocate A (read_bytes (memory s) t n) t (next_trampoline s)")
       (auto simp: install_def split: if_splits)
  with assms nh sp have "tr = next_trampoline s \<and> s' = commit A t rep n moved s"
    by (auto simp: install_def split: if_splits)
  with nh sp show ?thesis by blast
qed

lemma install_snd:
  "snd (install A t rep s) = s \<or>
   (lookup (registry s) t = None \<and>
    (\<exists>n moved. snd (install A t rep s) = commit A t rep n moved s))"
proof (cases "install A t rep s")
  case (Pair res s')
  show ?thesis
  proof (cases res)
    case (Inl e)
    with Pair have "s' = s"
      by (auto simp: install_def split: if_splits option.splits)
    with Pair show ?thesis by simp
  next
    case (Inr tr)
    with Pair install_Inr [of A t rep s tr s'] show ?thesis by auto
  qed
qed

lemma install_keeps_one_hook_per_target:
  assumes "one_hook_per_target s"
  shows "one_hook_per_target (snd (install A t rep s))"
  using install_snd [of A t rep s] assms
  by (auto simp: one_hook_per_target_def lookup_None_iff commit_fields)

lemma remove_keeps_one_hook_per_target:
  assumes "one_hook_per_target s"
  shows "one_hook_per_target (snd (remove t s))"
proof -
  have "filter active (erase (registry s) t) =
        filter (\<lambda>r. target_address r \<noteq> t) (filter active (registry s))"
    unfolding erase_def filter_filter by (rule filter_cong) auto
  moreover from assms
  have "distinct (map target_address
          (filter (\<lambda>r. target_address r \<noteq> t) (filter active (registry s))))"
    unfolding one_hook_per_target_def by (rule distinct_map_filter)
  ultimately have "distinct (map target_address (filter active (erase (registry s) t)))"
    by (simp only:)
  with assms show ?thesis
    by (simp add: remove_def one_hook_per_target_def split: option.splits)
qed

lemma demo_install:
  "install toy_arch 0x3000 0x1000 demo_engine = (Inr 0x100000, demo_patched)"
  by (simp add: install_def toy_arch_def demo_engine_def demo_patched_def engine_init_def
      lookup_def round_up_def)

lemma demo_patched_lookup: "lookup (registry demo_patched) 0x3000 \<noteq> None"
  by (simp add: demo_patched_def commit_fields lookup_def)

subsection \<open>A second install on a hooked target\<close>

text \<open>
  C7. For every target that has an active hook, another \<open>install\<close> on it fails with
  \<open>AlreadyHooked\<close> and changes nothing: the engine's state, with the record of the
  existing hook and the patched memory, is the one before the call. The registry is
  empty at first, and \<open>install\<close> and \<open>remove\<close> keep at most one active record per
  target address.
\<close>

theorem install_on_hooked_target_fails:
  "(lookup (registry s) t \<noteq> None \<longrightarrow> install A t rep s = (Inl AlreadyHooked, s)) \<and>
   one_hook_per_target (engine_init m base) \<and>
   (one_hook_per_target s \<longrightarrow>
      one_hook_per_target (snd (install A t rep s)) \<and> one_hook_per_target (snd (remove t s)))"
  using install_keeps_one_hook_per_target [of s A t rep] remove_keeps_one_hook_per_target [of s t]
  by (simp add: install_def one_hook_per_target_def engine_init_def)

theorem install_on_hooked_target_fails_witness:
  "lookup (registry demo_patched) 0x3000 \<noteq> None \<and>
   install toy_arch 0x3000 0x1100 demo_patched = (Inl AlreadyHooked, demo_patched) \<and>
   one_hook_per_target demo_patched \<and>
   one_hook_per_target (snd (install toy_arch 0x3000 0x1100 demo_patched)) \<and>
   one_hook_per_target (snd (remove 0x3000 demo_patched))"
proof -
  have inv: "one_hook_per_target demo_patched"
    by (simp add: one_hook_per_target_def demo_patched_def commit_fields demo_engine_def
        engine_init_def)
  show ?thesis
    using install_on_hooked_target_fails
        [of demo_patched "0x3000" toy_arch "0x1100" "\<lambda>a. of_nat a" "0x100000"]
      demo_patched_lookup inv
    by simp
qed

subsection \<open>Install followed by remove\<close>

text \<open>
  C8. Whenever \<open>install(target, replacement)\<close> succeeds, the record it makes holds
  exactly the bytes that were overwritten at the target, as many as the patch is long;
  while the hook is in place a call to the target goes to the replacement; and
  \<open>remove(target)\<close> then succeeds and leaves the memory byte for byte as it was before
  the install, the registry as it was, and a call to the target going where it went
  before.
\<close>

theorem install_remove_round_trip:
  assumes "install A t rep s = (Inr tr, s')"
  shows "\<exists>r s''. lookup (registry s') t = Some r \<and>
           original_bytes r = read_bytes (memory s) t (length (original_bytes r)) \<and>
           memory s' =
             write_bytes (memory s) t (redirect A t rep (length (original_bytes r))) \<and>
           length (redirect A t rep (length (original_bytes r))) = length (original_bytes r) \<and>
           resolve s' t = Replacement rep \<and>
           remove t s' = (Inr (), s'') \<and>
           memory s'' = memory s \<and> registry s'' = registry s \<and>
           resolve s'' t = resolve s t"
proof -
  from install_Inr [OF assms] obtain n moved where
    nh: "lookup (registry s) t = None" and
    sp: "split_point A (memory s) t (round_up (length (branch A t rep)) (granularity A)) 0
           = Some n" and
    s': "s' = commit A t rep n moved s"
    by blast
  define r where "r = \<lparr>target_address = t, original_bytes = read_bytes (memory s) t n,
              trampoline_address = next_trampoline s,
              replacement_address = rep, active = True\<rparr>"
  have ob: "original_bytes r = read_bytes (memory s) t n" and ta: "target_address r = t"
    and ra: "replacement_address r = rep" and ac: "active r"
    by (simp_all add: r_def)
  from split_point_ge [OF sp] round_up_ge [of "length (branch A t rep)" "granularity A"]
  have "length (branch A t rep) \<le> n" by linarith
  then have len: "length (redirect A t rep n) = n" by (rule length_redirect)
  have lr: "length (original_bytes r) = n" by (simp add: ob length_read_bytes)
  have reg: "registry s' = r # registry s" by (simp add: s' commit_fields r_def)
  have mem': "memory s' = write_bytes (memory s) t (redirect A t rep n)"
    by (simp add: s' commit_fields)
  have lk: "lookup (registry s') t = Some r" by (simp add: reg lookup_def ta ac)
  have er: "erase (registry s') t = registry s"
    using erase_no_hook [OF nh] by (simp add: reg erase_def ta ac)
  have mem: "write_bytes (memory s') t (original_bytes r) = memory s"
    unfolding mem' ob by (rule write_read_restore [OF len])
  define s'' where "s'' = s'\<lparr>memory := memory s, registry := registry s,
     trampolines := (trampolines s')(trampoline_address r := None)\<rparr>"
  have rm: "remove t s' = (Inr (), s'')"
    by (simp only: remove_def lk option.case er mem s''_def)
  have rg: "registry s'' = registry s" by (simp add: s''_def)
  have mm: "memory s'' = memory s" by (simp add: s''_def)
  have c1: "original_bytes r = read_bytes (memory s) t (length (original_bytes r))"
    unfolding lr by (rule ob)
  have c2: "memory s' = write_bytes (memory s) t (redirect A t rep (length (original_bytes r)))"
    unfolding lr by (rule mem')
  have c3: "length (redirect A t rep (length (original_bytes r))) = length (original_bytes r)"
    unfolding lr by (rule len)
  have c4: "resolve s' t = Replacement rep"
    by (simp only: resolve_def lk option.case ra)
  have c5: "resolve s'' t = resolve s t" by (simp only: resolve_def rg)
  show ?thesis
    by (rule exI [of _ r], rule exI [of _ s''], intro conjI)
       (rule lk c1 c2 c3 c4 rm mm rg c5)+
qed

theorem install_remove_round_trip_witness:
  "install toy_arch 0x3000 0x1000 demo_engine = (Inr 0x100000, demo_patched) \<and>
   read_bytes (memory demo_engine) 0x3000 8 = [0, 1, 2, 3, 4, 5, 6, 7] \<and>
   read_bytes (memory demo_patched) 0x3000 8 = [0xE9, 0, 0x10, 0, 0, 0x90, 0x90, 0x90] \<and>
   resolve demo_patched 0x3000 = Replacement 0x1000 \<and>
   (\<exists>s''. remove 0x3000 demo_patched = (Inr (), s'') \<and>
      memory s'' = memory demo_engine \<and>
      read_bytes (memory s'') 0x3000 8 = [0, 1, 2, 3, 4, 5, 6, 7] \<and>
      resolve s'' 0x3000 = Original 0x3000)"
proof -
  have upt8: "[0x3000 ..< 0x3000 + 8] =
      [0x3000, 0x3001, 0x3002, 0x3003, 0x3004, 0x3005, 0x3006, 0x3007 :: nat]"
    by (simp add: upt_rec)
  have before: "read_bytes (memory demo_engine) 0x3000 8 = [0, 1, 2, 3, 4, 5, 6, 7]"
    unfolding read_bytes_def upt8 by (simp add: demo_engine_def engine_init_def)
  have after: "read_bytes (memory demo_patched) 0x3000 8
      = [0xE9, 0, 0x10, 0, 0, 0x90, 0x90, 0x90]"
    unfolding read_bytes_def upt8
    by (simp add: demo_patched_def commit_fields write_bytes_def redirect_def toy_arch_def)
  have r0: "resolve demo_engine 0x3000 = Original 0x3000"
    by (simp add: resolve_def lookup_def demo_engine_def engine_init_def)
  from install_remove_round_trip [OF demo_install] before after r0 demo_install
  show ?thesis by auto
qed

section \<open>The replacement fake on the engine\<close>

lemma remove_commit:
  assumes nh: "lookup (registry s) t = None" and len: "length (branch A t rep) \<le> n"
  shows "remove t (commit A t rep n moved s) =
     (Inr (), (commit A t rep n moved s)\<lparr>memory := memory s, registry := registry s,
        trampolines := (trampolines (commit A t rep n moved s))(next_trampoline s := None)\<rparr>)"
proof -
  let ?s' = "commit A t rep n moved s"
  define r where "r = \<lparr>target_address = t, original_bytes = read_bytes (memory s) t n,
              trampoline_address = next_trampoline s,
              replacement_address = rep, active = True\<rparr>"
  have ob: "original_bytes r = read_bytes (memory s) t n" and ta: "target_address r = t"
    and tr: "trampoline_address r = next_trampoline s" and ac: "active r"
    by (simp_all add: r_def)
  have reg: "registry ?s' = r # registry s" by (simp add: commit_fields r_def)
  have lk: "lookup (registry ?s') t = Some r" by (simp add: reg lookup_def ta ac)
  have er: "erase (registry ?s') t = registry s"
    using erase_no_hook [OF nh] by (simp add: reg erase_def ta ac)
  have mem: "write_bytes (memory ?s') t (original_bytes r) = memory s"
    unfolding commit_fields ob by (rule write_read_restore [OF length_redirect [OF len]])
  show ?thesis
    by (simp only: remove_def lk option.case er mem tr)
qed

lemma engine_native_init:
  "native_init engine_platform engine_entries (module_loaded demo_engine)
     = Inr (Some 0x1300, engine_initialised)"
  by (simp add: native_init_def call_hook_func_def engine_entries_def engine_hook_def
      engine_platform_def module_loaded_def emit_def set_slot_def get_slot_def
      install_def toy_arch_def demo_engine_def engine_init_def lookup_def round_up_def
      engine_initialised_def)

lemma engine_initialised_install:
  "install toy_arch 0x3000 0x1000 (host engine_initialised) =
     (Inr 0x10000D,
      commit toy_arch 0x3000 0x1000 8 (read_bytes (memory (host engine_initialised)) 0x3000 8)
        (host engine_initialised))"
  by (simp add: install_def toy_arch_def engine_initialised_def commit_def Let_def
      demo_engine_def engine_init_def lookup_def round_up_def read_bytes_def)

text \<open>
  C2. \<open>fake\<close> returns what the call through \<open>backup\<close> returns, plus 1 (in 32-bit
  arithmetic; the C++ addition is undefined at \<open>INT_MAX\<close>, where this one wraps). Hence,
  in a process whose hook function is the engine's: a function at \<open>t\<close> that is not
  hooked returns its own value \<open>code t\<close>; after \<open>hook_func(t, fake, &backup)\<close> has
  installed the hook, \<open>backup\<close> holds the trampoline and a call of the function
  returns \<open>code t + 1\<close>; after the hook has been removed, it returns \<open>code t\<close> again.
  For a function that returns 41 these are 41, 42 and 41.
\<close>

theorem fake_adds_one_to_original:
  assumes hf: "hook_func w = Some (engine_hook A)"
    and ci: "call_int P = native_call code"
    and un: "resolve (host w) t = Original t"
    and ins: "install A t (fake_addr P) (host w) = (Inr tr, s1)"
    and fresh: "lookup (registry (host w)) tr = None" "tr \<noteq> t"
  shows "fake P w =
           (case backup w of
              None \<Rightarrow> Inl NullFunctionCall
            | Some a \<Rightarrow>
                (case call_int P a (host w) of
                   Inl e \<Rightarrow> Inl e
                 | Inr (r, h') \<Rightarrow> Inr (r + 1, w\<lparr>host := h'\<rparr>))) \<and>
         call_target P t w = Inr (code t, w) \<and>
         (\<exists>w1. call_hook_func (Some t) (Some (fake_addr P)) Slot_backup w = Inr w1 \<and>
            backup w1 = Some tr \<and>
            call_target P t w1 = Inr (code t + 1, w1) \<and>
            (\<exists>s2. engine_unhook (Some t) (host w1) = (0, s2) \<and>
               call_target P t (w1\<lparr>host := s2\<rparr>) = Inr (code t, w1\<lparr>host := s2\<rparr>)))"
proof -
  have general: "fake P w =
           (case backup w of
              None \<Rightarrow> Inl NullFunctionCall
            | Some a \<Rightarrow>
                (case call_int P a (host w) of
                   Inl e \<Rightarrow> Inl e
                 | Inr (r, h') \<Rightarrow> Inr (r + 1, w\<lparr>host := h'\<rparr>)))"
    by (simp add: fake_def invoke_def split: option.splits sum.splits prod.splits)
  have before: "call_target P t w = Inr (code t, w)"
    by (simp add: call_target_def un invoke_def ci native_call_def)
  from install_Inr [OF ins] obtain n moved where
    nh: "lookup (registry (host w)) t = None" and
    sp: "split_point A (memory (host w)) t
           (round_up (length (branch A t (fake_addr P))) (granularity A)) 0 = Some n" and
    trd: "tr = next_trampoline (host w)" and
    s1: "s1 = commit A t (fake_addr P) n moved (host w)"
    by blast
  define r where "r = \<lparr>target_address = t, original_bytes = read_bytes (memory (host w)) t n,
              trampoline_address = tr,
              replacement_address = fake_addr P, active = True\<rparr>"
  have reg1: "registry s1 = r # registry (host w)"
    by (simp add: s1 commit_fields r_def trd)
  define w1 where "w1 = w\<lparr>host := s1, trace := trace w @
      [HookCall (Some t) (Some (fake_addr P)) Slot_backup], backup := Some tr\<rparr>"
  have hook: "call_hook_func (Some t) (Some (fake_addr P)) Slot_backup w = Inr w1"
    by (simp add: call_hook_func_def hf engine_hook_def ins set_slot_def get_slot_def
        emit_def w1_def)
  have b1: "backup w1 = Some tr" and h1: "host w1 = s1" by (simp_all add: w1_def)
  have res_t: "resolve s1 t = Replacement (fake_addr P)"
    by (simp add: resolve_def lookup_def reg1 r_def)
  have res_tr: "resolve s1 tr = Original t"
    using fresh by (simp add: resolve_def lookup_def reg1 r_def)
  have "fake P w1 = Inr (code t + 1, w1\<lparr>host := s1\<rparr>)"
    by (simp add: fake_def invoke_def b1 h1 ci native_call_def res_tr)
  moreover have "w1\<lparr>host := s1\<rparr> = w1" by (simp add: w1_def)
  ultimately have during: "call_target P t w1 = Inr (code t + 1, w1)"
    by (simp add: call_target_def h1 res_t)
  from split_point_ge [OF sp]
    round_up_ge [of "length (branch A t (fake_addr P))" "granularity A"]
  have len: "length (branch A t (fake_addr P)) \<le> n" by linarith
  define s2 where "s2 = s1\<lparr>memory := memory (host w), registry := registry (host w),
        trampolines := (trampolines s1)(next_trampoline (host w) := None)\<rparr>"
  have rm: "remove t s1 = (Inr (), s2)"
    unfolding s1 s2_def by (rule remove_commit [OF nh len])
  have unhook: "engine_unhook (Some t) (host w1) = (0, s2)"
    by (simp add: engine_unhook_def h1 rm)
  have rg2: "registry s2 = registry (host w)" by (simp add: s2_def)
  have "resolve s2 t = resolve (host w) t" by (simp only: resolve_def rg2)
  with un have res2: "resolve s2 t = Original t" by simp
  have after: "call_target P t (w1\<lparr>host := s2\<rparr>) = Inr (code t, w1\<lparr>host := s2\<rparr>)"
    by (simp add: call_target_def res2 invoke_def ci native_call_def)
  from general before hook b1 during unhook after show ?thesis by blast
qed

theorem fake_adds_one_to_original_witness:
  "native_init engine_platform engine_entries (module_loaded demo_engine)
     = Inr (Some 0x1300, engine_initialised) \<and>
   call_target engine_platform 0x3000 engine_initialised = Inr (41, engine_initialised) \<and>
   (\<exists>w1. call_hook_func (Some 0x3000) (Some 0x1000) Slot_backup engine_initialised = Inr w1 \<and>
      backup w1 = Some 0x10000D \<and>
      call_target engine_platform 0x3000 w1 = Inr (42, w1) \<and>
      (\<exists>s2. engine_unhook (Some 0x3000) (host w1) = (0, s2) \<and>
         call_target engine_platform 0x3000 (w1\<lparr>host := s2\<rparr>)
           = Inr (41, w1\<lparr>host := s2\<rparr>)))"
proof -
  let ?code = "\<lambda>a::nat. if a = 0x3000 then 41 else (0::c_int)"
  have hf: "hook_func engine_initialised = Some (engine_hook toy_arch)"
    by (simp add: engine_initialised_def)
  have ci: "call_int engine_platform = native_call ?code"
    by (simp add: engine_platform_def)
  have fa: "fake_addr engine_platform = 0x1000" by (simp add: engine_platform_def)
  have un: "resolve (host engine_initialised) 0x3000 = Original 0x3000"
    by (simp add: resolve_def lookup_def engine_initialised_def commit_fields
        demo_engine_def engine_init_def)
  have ins: "install toy_arch 0x3000 (fake_addr engine_platform) (host engine_initialised) =
     (Inr 0x10000D,
      commit toy_arch 0x3000 0x1000 8 (read_bytes (memory (host engine_initialised)) 0x3000 8)
        (host engine_initialised))"
    unfolding fa by (rule engine_initialised_install)
  have f1: "lookup (registry (host engine_initialised)) 0x10000D = None"
    by (simp add: lookup_def engine_initialised_def commit_fields demo_engine_def
        engine_init_def)
  have f2: "(0x10000D::nat) \<noteq> 0x3000" by simp
  from fake_adds_one_to_original [OF hf ci un ins f1 f2] engine_native_init fa
  show ?thesis by simp
qed

end
